theory Spec2Isabelle
  imports Complex_Main "HOL-Library.Word" "HOL-Library.AList" "HOL-Library.Multiset"
    "HOL-Library.Sublist"
begin

section \<open>Data model of the profiler (include/profiler.h)\<close>

text \<open>
  \<open>uint64_t\<close> counters are 64-bit words, so \<open>+\<close> wraps as in C++. The type of
  \<open>total_seconds\<close> is the parameter \<open>'d\<close> of the record. In the registry it is
  \<open>real\<close>: the seconds that \<open>stop\<close> accumulates are idealised (exact arithmetic, no
  rounding, no infinities), and a reading of \<open>std::chrono::steady_clock\<close> is a
  \<open>real\<close> number of seconds. The reporter, which fixes the digits it writes, takes
  entries whose \<open>total_seconds\<close> is an IEEE 754 \<open>double\<close> (defined with the reporter).
  The clock is an input of the model: every operation that calls
  \<open>steady_clock::now()\<close> takes the value read as an argument.
\<close>

type_synonym u64 = "64 word"
type_synonym time_point = real
type_synonym tid = nat

record 'd ProfileEntry =
  name :: string
  calls :: u64
  total_seconds :: 'd
  total_bytes :: u64

text \<open>The default constructor \<open>ProfileEntry() : calls(0), total_seconds(0.0), total_bytes(0)\<close>.\<close>

definition ProfileEntry_default :: "real ProfileEntry" where
  "ProfileEntry_default = \<lparr>name = [], calls = 0, total_seconds = 0, total_bytes = 0\<rparr>"

record TimerState =
  start_time :: time_point
  active :: bool

text \<open>\<open>TimerState() : active(false)\<close>; the time point is value-initialised to the epoch.\<close>

definition TimerState_default :: TimerState where
  "TimerState_default = \<lparr>start_time = 0, active = False\<rparr>"

text \<open>
  The singleton. \<open>entries_map\<close> is the shared \<open>unordered_map\<close> named \<open>entries_\<close> in
  the source: an association list with distinct keys, whose order stands for the
  (unspecified) iteration order of the map. \<open>thread_timers\<close> is the source's
  \<open>thread_local\<close> map \<open>thread_timers_\<close>: one map per thread, indexed by the thread.
\<close>

record Profiler =
  entries_map :: "(string \<times> real ProfileEntry) list"
  thread_timers :: "tid \<Rightarrow> (string \<rightharpoonup> TimerState)"

definition Profiler_init :: Profiler where
  "Profiler_init = \<lparr>entries_map = [], thread_timers = (\<lambda>t. Map.empty)\<rparr>"

text \<open>\<open>operator[]\<close> of the two maps: the stored value, or a default-constructed one.\<close>

definition entry_at :: "(string \<times> real ProfileEntry) list \<Rightarrow> string \<Rightarrow> real ProfileEntry" where
  "entry_at es key = (case map_of es key of None \<Rightarrow> ProfileEntry_default | Some e \<Rightarrow> e)"

definition timer_at :: "(string \<rightharpoonup> TimerState) \<Rightarrow> string \<Rightarrow> TimerState" where
  "timer_at m key = (case m key of None \<Rightarrow> TimerState_default | Some st \<Rightarrow> st)"

section \<open>Operations of the profiler (src/profiler.cpp)\<close>

definition start :: "tid \<Rightarrow> string \<Rightarrow> time_point \<Rightarrow> Profiler \<Rightarrow> Profiler" where
  "start t key now p =
     (let state = timer_at (thread_timers p t) key;
          state = state\<lparr>start_time := now\<rparr>;
          state = state\<lparr>active := True\<rparr>
      in p\<lparr>thread_timers := (thread_timers p)(t := (thread_timers p t)(key \<mapsto> state))\<rparr>)"

definition stop :: "tid \<Rightarrow> string \<Rightarrow> time_point \<Rightarrow> Profiler \<Rightarrow> Profiler" where
  "stop t key stop_time p =
     (case thread_timers p t key of
        None \<Rightarrow> p
      | Some it \<Rightarrow>
          if \<not> active it then p
          else
            let elapsed = stop_time - start_time it;
                timers = (thread_timers p)(t := (thread_timers p t)(key \<mapsto> it\<lparr>active := False\<rparr>));
                entry = entry_at (entries_map p) key;
                entry = entry\<lparr>name := key\<rparr>;
                entry = entry\<lparr>calls := calls entry + 1\<rparr>;
                entry = entry\<lparr>total_seconds := total_seconds entry + elapsed\<rparr>
            in p\<lparr>entries_map := AList.update key entry (entries_map p), thread_timers := timers\<rparr>)"

definition add_bytes :: "string \<Rightarrow> u64 \<Rightarrow> Profiler \<Rightarrow> Profiler" where
  "add_bytes key bytes p =
     (let entry = entry_at (entries_map p) key;
          entry = entry\<lparr>name := key\<rparr>;
          entry = entry\<lparr>total_bytes := total_bytes entry + bytes\<rparr>
      in p\<lparr>entries_map := AList.update key entry (entries_map p)\<rparr>)"

text \<open>
  \<open>std::sort\<close> with a comparator: the library promises a permutation of the input in
  which no element is ordered before one that precedes it. Insertion sort stands for it;
  no theorem below depends on how ties are ordered.
\<close>

fun insert_by :: "('a \<Rightarrow> 'a \<Rightarrow> bool) \<Rightarrow> 'a \<Rightarrow> 'a list \<Rightarrow> 'a list" where
  "insert_by cmp x [] = [x]"
| "insert_by cmp x (y # ys) = (if cmp y x then y # insert_by cmp x ys else x # y # ys)"

fun std_sort :: "('a \<Rightarrow> 'a \<Rightarrow> bool) \<Rightarrow> 'a list \<Rightarrow> 'a list" where
  "std_sort cmp [] = []"
| "std_sort cmp (x # xs) = insert_by cmp x (std_sort cmp xs)"

text \<open>
  \<open>entries() const\<close>: the returned vector, paired with the profiler after the call
  (the method locks \<open>mutex_\<close>, copies the values, sorts the copy and returns it).
\<close>

definition entries :: "Profiler \<Rightarrow> real ProfileEntry list \<times> Profiler" where
  "entries p =
     (let result = map snd (entries_map p);
          result = std_sort (\<lambda>a b. total_seconds a > total_seconds b) result
      in (result, p))"

definition clear :: "Profiler \<Rightarrow> Profiler" where
  "clear p = p\<lparr>entries_map := []\<rparr>"

text \<open>
  \<open>ScopedTimer\<close>: the constructor starts the region, the destructor stops it.
\<close>

definition ScopedTimer_ctor :: "tid \<Rightarrow> string \<Rightarrow> time_point \<Rightarrow> Profiler \<Rightarrow> Profiler" where
  "ScopedTimer_ctor t n now p = start t n now p"

definition ScopedTimer_dtor :: "tid \<Rightarrow> string \<Rightarrow> time_point \<Rightarrow> Profiler \<Rightarrow> Profiler" where
  "ScopedTimer_dtor t n now p = stop t n now p"

section \<open>The reporter: \<open>dump_profile\<close> (src/profiler.cpp)\<close>

text \<open>
  IEEE 754 binary64. \<open>Finite s m e\<close> is the number \<open>(-1)^s * m * 2^e\<close> with
  \<open>m < 2^53\<close> and \<open>-1074 \<le> e \<le> 971\<close>, and with \<open>2^52 \<le> m\<close> unless \<open>e = -1074\<close>
  (zero and the subnormal numbers); \<open>s\<close> is the sign bit, which infinities and NaNs have
  too.
\<close>

datatype double = Finite bool nat int | Infinity bool | NaN bool



definition double_zero :: double where
  "double_zero = Finite False 0 (- 1074)"

text \<open>\<open>bit_length n\<close> is the number of binary digits of \<open>n\<close>.\<close>

fun bit_length :: "nat \<Rightarrow> nat" where
  "bit_length n = (if n = 0 then 0 else Suc (bit_length (n div 2)))"

declare bit_length.simps [simp del]

text \<open>The integer nearest to \<open>n / d\<close>, ties to the even one.\<close>

definition round_div :: "nat \<Rightarrow> nat \<Rightarrow> nat" where
  "round_div n d =
     (let q = n div d; r = n mod d
      in if 2 * r < d then q else if d < 2 * r then q + 1 else if even q then q else q + 1)"

text \<open>
  The double nearest to \<open>p / q\<close> with sign \<open>s\<close>, in the default rounding mode (to
  nearest, ties to even). \<open>e0\<close> is the exponent of the leading binary digit of \<open>p / q\<close>,
  \<open>e\<close> the exponent of the last digit kept, and \<open>m\<close> the digits kept; a value that
  rounds beyond the largest double becomes an infinity.
\<close>

definition round_to_double :: "bool \<Rightarrow> nat \<Rightarrow> nat \<Rightarrow> double" where
  "round_to_double s p q =
     (if p = 0 then Finite s 0 (- 1074)
      else
        let d = int (bit_length p) - int (bit_length q);
            e0 = (if q * 2 ^ nat d \<le> p * 2 ^ nat (- d) then d else d - 1);
            e = max (e0 - 52) (- 1074);
            m = round_div (p * 2 ^ nat (- e)) (q * 2 ^ nat e);
            e = (if m = 2 ^ 53 then e + 1 else e);
            m = (if m = 2 ^ 53 then 2 ^ 52 else m)
        in if 971 < e then Infinity s else Finite s m e)"

text \<open>
  The conversion of a \<open>uint64_t\<close> to \<open>double\<close>, and the division of doubles. A NaN
  operand is the result; the invalid divisions (zero by zero, infinity by infinity) give the
  default NaN of x86-64, whose sign bit is set. \<open>dump_profile\<close> divides by a converted
  positive count only, which is finite and at least 1.
\<close>

definition double_of_u64 :: "u64 \<Rightarrow> double" where
  "double_of_u64 w = round_to_double False (unat w) 1"

fun double_div :: "double \<Rightarrow> double \<Rightarrow> double" where
  "double_div (NaN s) y = NaN s"
| "double_div (Infinity s) (NaN s') = NaN s'"
| "double_div (Finite s m e) (NaN s') = NaN s'"
| "double_div (Infinity s) (Infinity s') = NaN True"
| "double_div (Infinity s) (Finite s' m' e') = Infinity (s \<noteq> s')"
| "double_div (Finite s m e) (Infinity s') = Finite (s \<noteq> s') 0 (- 1074)"
| "double_div (Finite s m e) (Finite s' m' e') =
     (if m' = 0 then (if m = 0 then NaN True else Infinity (s \<noteq> s'))
      else round_to_double (s \<noteq> s') (m * 2 ^ nat (e - e')) (m' * 2 ^ nat (e' - e)))"

declare double_div.simps [simp del]

text \<open>
  The stream inserters of the standard library. \<open>out << n\<close> for a \<open>uint64_t\<close> writes
  the decimal digits of \<open>n\<close>. \<open>out << std::fixed << std::setprecision(6) << x\<close> writes a
  finite \<open>x\<close> rounded to six fractional digits (to nearest, ties to even, as
  \<open>printf("%.6f")\<close> does), with its sign and at least one digit before the point; it
  writes an infinity as \<open>inf\<close> and a NaN as \<open>nan\<close>, after a minus sign when the sign
  bit is set.
\<close>

definition digit_char :: "nat \<Rightarrow> char" where
  "digit_char d = ''0123456789'' ! d"

fun show_nat :: "nat \<Rightarrow> string" where
  "show_nat n = (if n < 10 then [digit_char n] else show_nat (n div 10) @ [digit_char (n mod 10)])"

declare show_nat.simps [simp del]

definition show_u64 :: "u64 \<Rightarrow> string" where
  "show_u64 w = show_nat (unat w)"

fun show_fixed6 :: "double \<Rightarrow> string" where
  "show_fixed6 (NaN s) = (if s then ''-nan'' else ''nan'')"
| "show_fixed6 (Infinity s) = (if s then ''-inf'' else ''inf'')"
| "show_fixed6 (Finite s m e) =
     (let k = round_div (m * 1000000 * 2 ^ nat e) (2 ^ nat (- e));
          fr = show_nat (k mod 1000000)
      in (if s then ''-'' else []) @ show_nat (k div 1000000) @ ''.'' @
         replicate (6 - length fr) (CHR ''0'') @ fr)"

declare show_fixed6.simps [simp del]

text \<open>
  What a call of \<open>dump_profile\<close> does to the outside: the text it wrote to the file
  \<open>filename\<close> (\<open>None\<close> when it wrote no file), and what it sent to \<open>std::cerr\<close> and
  \<open>std::cout\<close>. \<open>std::endl\<close> is a newline.
\<close>

record dump_effects =
  file_content :: "string option"
  cerr :: string
  cout :: string

text \<open>The body of the JSON loop; \<open>i + 1 < entries.size()\<close> holds when entries remain.\<close>

fun json_entries :: "string \<Rightarrow> double ProfileEntry list \<Rightarrow> string" where
  \<open>json_entries out [] = out\<close>
| \<open>json_entries out (entry # rest) =
     (let out = out @ ''  {\<newline>'';
          out = out @ ''    "name": "'' @ name entry @ ''",\<newline>'';
          out = out @ ''    "calls": '' @ show_u64 (calls entry) @ '',\<newline>'';
          out = out @ ''    "total_seconds": '' @ show_fixed6 (total_seconds entry);
          out = (if total_bytes entry > 0
                 then out @ '',\<newline>    "total_bytes": '' @ show_u64 (total_bytes entry)
                 else out);
          out = out @ ''\<newline>  }'';
          out = (if rest \<noteq> [] then out @ '','' else out);
          out = out @ ''\<newline>''
      in json_entries out rest)\<close>

fun csv_entries :: "string \<Rightarrow> double ProfileEntry list \<Rightarrow> string" where
  "csv_entries out [] = out"
| "csv_entries out (entry # rest) =
     (let avg = (if calls entry > 0
                 then double_div (total_seconds entry) (double_of_u64 (calls entry))
                 else double_zero);
          out = out @ name entry @ '','' @ show_u64 (calls entry) @ '','' @
                show_fixed6 (total_seconds entry) @ '','' @ show_fixed6 avg @ '','' @
                show_u64 (total_bytes entry) @ ''\<newline>''
      in csv_entries out rest)"

text \<open>
  \<open>can_open filename\<close> says whether \<open>std::ofstream out(filename)\<close> opens the file; it is
  the file system's answer and an input of the model.
\<close>

definition dump_profile ::
  "(string \<Rightarrow> bool) \<Rightarrow> double ProfileEntry list \<Rightarrow> string \<Rightarrow> dump_effects" where
  "dump_profile can_open es filename =
     (if es = [] then
        \<lparr>file_content = None, cerr = ''Warning: No profiling data collected\<newline>'', cout = []\<rparr>
      else if \<not> can_open filename then
        \<lparr>file_content = None,
         cerr = ''Error: Could not open profile output file: '' @ filename @ ''\<newline>'',
         cout = []\<rparr>
      else
        let is_json = (length filename \<ge> 5 \<and> drop (length filename - 5) filename = ''.json'');
            is_csv = (length filename \<ge> 4 \<and> drop (length filename - 4) filename = ''.csv'');
            out = (if is_json then json_entries ''[\<newline>'' es @ '']\<newline>''
                   else csv_entries ''name,calls,total_seconds,avg_seconds,total_bytes\<newline>'' es)
        in \<lparr>file_content = Some out, cerr = [],
            cout = ''Profiling data written to: '' @ filename @ ''\<newline>''\<rparr>)"


section \<open>The build without \<open>GENIE_PROFILE\<close> (include/profiler.h)\<close>

text \<open>
  The stub class has no data members and every member function has an empty body. The
  stubs take the arguments of the operations they replace.
\<close>

definition stub_start :: "tid \<Rightarrow> string \<Rightarrow> time_point \<Rightarrow> Profiler \<Rightarrow> Profiler" where
  "stub_start t key now p = p"

definition stub_stop :: "tid \<Rightarrow> string \<Rightarrow> time_point \<Rightarrow> Profiler \<Rightarrow> Profiler" where
  "stub_stop t key now p = p"

definition stub_add_bytes :: "string \<Rightarrow> u64 \<Rightarrow> Profiler \<Rightarrow> Profiler" where
  "stub_add_bytes key bytes p = p"

definition stub_entries :: "Profiler \<Rightarrow> real ProfileEntry list \<times> Profiler" where
  "stub_entries p = ([], p)"

definition stub_clear :: "Profiler \<Rightarrow> Profiler" where
  "stub_clear p = p"

definition stub_ScopedTimer_ctor :: "tid \<Rightarrow> string \<Rightarrow> time_point \<Rightarrow> Profiler \<Rightarrow> Profiler" where
  "stub_ScopedTimer_ctor t n now p = p"

definition stub_ScopedTimer_dtor :: "tid \<Rightarrow> string \<Rightarrow> time_point \<Rightarrow> Profiler \<Rightarrow> Profiler" where
  "stub_ScopedTimer_dtor t n now p = p"

definition stub_dump_profile ::
  "(string \<Rightarrow> bool) \<Rightarrow> double ProfileEntry list \<Rightarrow> string \<Rightarrow> dump_effects" where
  "stub_dump_profile can_open es filename = \<lparr>file_content = None, cerr = [], cout = []\<rparr>"

section \<open>Runs of the profiler\<close>

text \<open>
  A sequence of start/stop cycles on one region name: each cycle runs on a thread \<open>t\<close>,
  reads the clock as \<open>t0\<close> in \<open>start\<close> and as \<open>t1\<close> in \<open>stop\<close>.
\<close>

fun cycles :: "string \<Rightarrow> (tid \<times> time_point \<times> time_point) list \<Rightarrow> Profiler \<Rightarrow> Profiler" where
  "cycles key [] p = p"
| "cycles key ((t, t0, t1) # cs) p = cycles key cs (stop t key t1 (start t key t0 p))"

subsection \<open>Threads\<close>

text \<open>
  \<open>stop\<close> has two parts. Lines 21 to 32 read the clock and the calling thread's own
  timer, and touch nothing shared: \<open>stop_local\<close> returns the key and the elapsed time
  when the timer was active. Lines 35 to 41 run under \<open>std::lock_guard\<close> on the one
  mutex of the profiler: \<open>stop_locked\<close>. Another thread can run between the two parts.
\<close>

definition stop_local :: "tid \<Rightarrow> string \<Rightarrow> time_point \<Rightarrow> Profiler \<Rightarrow> (string \<times> real) option \<times> Profiler" where
  "stop_local t key stop_time p =
     (case thread_timers p t key of
        None \<Rightarrow> (None, p)
      | Some it \<Rightarrow>
          if \<not> active it then (None, p)
          else
            let elapsed = stop_time - start_time it;
                timers = (thread_timers p)(t := (thread_timers p t)(key \<mapsto> it\<lparr>active := False\<rparr>))
            in (Some (key, elapsed), p\<lparr>thread_timers := timers\<rparr>))"

definition stop_locked :: "string \<Rightarrow> real \<Rightarrow> Profiler \<Rightarrow> Profiler" where
  "stop_locked key elapsed p =
     (let entry = entry_at (entries_map p) key;
          entry = entry\<lparr>name := key\<rparr>;
          entry = entry\<lparr>calls := calls entry + 1\<rparr>;
          entry = entry\<lparr>total_seconds := total_seconds entry + elapsed\<rparr>
      in p\<lparr>entries_map := AList.update key entry (entries_map p)\<rparr>)"
















subsection \<open>The CSV row and the seconds format, as the specification words them\<close>

definition is_digit :: "char \<Rightarrow> bool" where
  "is_digit c = (c \<in> set ''0123456789'')"




subsection \<open>The JSON text, as the specification words it\<close>

text \<open>
  An object with the keys \<open>name\<close>, \<open>calls\<close> and \<open>total_seconds\<close>, and the key
  \<open>total_bytes\<close> when that field is not zero; the objects are separated by commas.
\<close>

definition spec_json_object :: "double ProfileEntry \<Rightarrow> string" where
  \<open>spec_json_object e =
     ''  {\<newline>    "name": "'' @ name e @ ''",\<newline>    "calls": '' @ show_u64 (calls e) @
     '',\<newline>    "total_seconds": '' @ show_fixed6 (total_seconds e) @
     (if total_bytes e \<noteq> 0 then '',\<newline>    "total_bytes": '' @ show_u64 (total_bytes e) else []) @
     ''\<newline>  }''\<close>

fun spec_json_elements :: "double ProfileEntry list \<Rightarrow> string" where
  "spec_json_elements [] = []"
| "spec_json_elements [e] = spec_json_object e @ ''\<newline>''"
| "spec_json_elements (e # es) = spec_json_object e @ '','' @ ''\<newline>'' @ spec_json_elements es"

subsection \<open>A recogniser of JSON texts (RFC 8259)\<close>

text \<open>
  Each function returns the input that follows what it recognised, or \<open>None\<close>.
  \<open>json_chars\<close> reads a string after its opening quote. The first argument of
  \<open>json_value\<close> is fuel: each call uses one element of it, and \<open>json_valid\<close> gives
  twice the length of the text and two more.
\<close>

definition is_hex :: "char \<Rightarrow> bool" where
  "is_hex c = (c \<in> set ''0123456789abcdefABCDEF'')"

definition is_ws :: "char \<Rightarrow> bool" where
  "is_ws c = (c = CHR '' '' \<or> c = CHR 0x09 \<or> c = CHR 0x0A \<or> c = CHR 0x0D)"

definition skip_ws :: "string \<Rightarrow> string" where
  "skip_ws s = dropWhile is_ws s"

fun json_chars :: "string \<Rightarrow> string option" where
  "json_chars [] = None"
| "json_chars (c # cs) =
     (if c = CHR 0x22 then Some cs
      else if c = CHR 0x5C then
        (case cs of
           [] \<Rightarrow> None
         | e # r \<Rightarrow>
             if e \<in> set [CHR 0x22, CHR 0x5C, CHR ''/'', CHR ''b'', CHR ''f'', CHR ''n'', CHR ''r'', CHR ''t'']
             then json_chars r
             else if e = CHR ''u'' \<and> 4 \<le> length r \<and> list_all is_hex (take 4 r)
             then json_chars (drop 4 r)
             else None)
      else if (of_char c :: nat) < 32 then None
      else json_chars cs)"

definition json_digits :: "string \<Rightarrow> string option" where
  "json_digits s = (if takeWhile is_digit s = [] then None else Some (dropWhile is_digit s))"

definition json_number :: "string \<Rightarrow> string option" where
  "json_number s =
     (let s = (case s of c # r \<Rightarrow> if c = CHR ''-'' then r else s | [] \<Rightarrow> s);
          int_part = (case s of
                        [] \<Rightarrow> None
                      | c # r \<Rightarrow> if c = CHR ''0'' then Some r
                                else if is_digit c then Some (dropWhile is_digit r)
                                else None);
          frac_part = (case int_part of
                         None \<Rightarrow> None
                       | Some [] \<Rightarrow> Some []
                       | Some (c # r) \<Rightarrow> if c = CHR ''.'' then json_digits r else Some (c # r))
      in case frac_part of
           None \<Rightarrow> None
         | Some [] \<Rightarrow> Some []
         | Some (c # r) \<Rightarrow>
             if c = CHR ''e'' \<or> c = CHR ''E''
             then json_digits (case r of d # r' \<Rightarrow> if d = CHR ''+'' \<or> d = CHR ''-'' then r' else r
                                      | [] \<Rightarrow> r)
             else Some (c # r))"

fun json_value :: "'f list \<Rightarrow> string \<Rightarrow> string option"
  and json_elements :: "'f list \<Rightarrow> string \<Rightarrow> string option"
  and json_members :: "'f list \<Rightarrow> string \<Rightarrow> string option"
where
  "json_value [] s = None"
| "json_value (f # fuel) s =
     (case skip_ws s of
        [] \<Rightarrow> None
      | c # r \<Rightarrow>
          if c = CHR ''{'' then
            (case skip_ws r of
               [] \<Rightarrow> None
             | c' # r' \<Rightarrow> if c' = CHR ''}'' then Some r' else json_members fuel r)
          else if c = CHR ''['' then
            (case skip_ws r of
               [] \<Rightarrow> None
             | c' # r' \<Rightarrow> if c' = CHR '']'' then Some r' else json_elements fuel r)
          else if c = CHR 0x22 then json_chars r
          else if c = CHR ''-'' \<or> is_digit c then json_number (c # r)
          else if take 4 (c # r) = ''true'' then Some (drop 4 (c # r))
          else if take 5 (c # r) = ''false'' then Some (drop 5 (c # r))
          else if take 4 (c # r) = ''null'' then Some (drop 4 (c # r))
          else None)"
| "json_elements [] s = None"
| "json_elements (f # fuel) s =
     (case json_value fuel s of
        None \<Rightarrow> None
      | Some r \<Rightarrow>
          (case skip_ws r of
             [] \<Rightarrow> None
           | c # r' \<Rightarrow> if c = CHR '','' then json_elements fuel r'
                       else if c = CHR '']'' then Some r'
                       else None))"
| "json_members [] s = None"
| "json_members (f # fuel) s =
     (case skip_ws s of
        [] \<Rightarrow> None
      | c # r \<Rightarrow>
          if c \<noteq> CHR 0x22 then None
          else
            (case json_chars r of
               None \<Rightarrow> None
             | Some r1 \<Rightarrow>
                 (case skip_ws r1 of
                    [] \<Rightarrow> None
                  | c1 # r2 \<Rightarrow>
                      if c1 \<noteq> CHR '':'' then None
                      else
                        (case json_value fuel r2 of
                           None \<Rightarrow> None
                         | Some r3 \<Rightarrow>
                             (case skip_ws r3 of
                                [] \<Rightarrow> None
                              | c3 # r4 \<Rightarrow> if c3 = CHR '','' then json_members fuel r4
                                           else if c3 = CHR ''}'' then Some r4
                                           else None)))))"

definition json_valid :: "string \<Rightarrow> bool" where
  "json_valid s =
     (case json_value (CHR ''f'' # CHR ''f'' # s @ s) s of None \<Rightarrow> False | Some r \<Rightarrow> skip_ws r = [])"

section \<open>Lemmas on the registry and the timers\<close>

lemma entry_at_update:
  "entry_at (AList.update k v al) k' = (if k' = k then v else entry_at al k')"
  by (simp add: entry_at_def update_conv')

lemma start_timer:
  "thread_timers (start t key now p) t key = Some \<lparr>start_time = now, active = True\<rparr>"
  by (simp add: start_def timer_at_def TimerState_default_def split: option.splits)

lemma start_entries: "entries_map (start t key now p) = entries_map p"
  by (simp add: start_def Let_def)

lemma stop_active:
  "thread_timers p t key = Some it \<Longrightarrow> active it \<Longrightarrow>
   stop t key t1 p =
     p\<lparr>entries_map :=
         AList.update key
           ((entry_at (entries_map p) key)
              \<lparr>name := key,
               calls := calls (entry_at (entries_map p) key) + 1,
               total_seconds := total_seconds (entry_at (entries_map p) key) + (t1 - start_time it)\<rparr>)
           (entries_map p),
       thread_timers := (thread_timers p)(t := (thread_timers p t)(key \<mapsto> it\<lparr>active := False\<rparr>))\<rparr>"
  by (simp add: stop_def Let_def)

lemma cycle_entry:
  "entry_at (entries_map (stop t key t1 (start t key t0 p))) key =
     (entry_at (entries_map p) key)
        \<lparr>name := key,
         calls := calls (entry_at (entries_map p) key) + 1,
         total_seconds := total_seconds (entry_at (entries_map p) key) + (t1 - t0)\<rparr>"
  by (simp add: stop_active [OF start_timer] entry_at_update start_entries)

lemma cycles_calls:
  "calls (entry_at (entries_map (cycles key cs p)) key) =
     calls (entry_at (entries_map p) key) + of_nat (length cs)"
  by (induction cs arbitrary: p) (auto simp: cycle_entry)

lemma cycles_seconds:
  "total_seconds (entry_at (entries_map (cycles key cs p)) key) =
     total_seconds (entry_at (entries_map p) key) + (\<Sum>(t, t0, t1) \<leftarrow> cs. t1 - t0)"
  by (induction cs arbitrary: p) (auto simp: cycle_entry)

section \<open>Lemmas on sorting\<close>

lemma mset_insert_by: "mset (insert_by cmp x xs) = add_mset x (mset xs)"
  by (induction xs) auto

lemma mset_std_sort: "mset (std_sort cmp xs) = mset xs"
  by (induction xs) (auto simp: mset_insert_by)

lemma set_insert_by: "set (insert_by cmp x xs) = insert x (set xs)"
  by (induction xs) auto

lemma sorted_insert_by_desc:
  fixes f :: "'a \<Rightarrow> real"
  shows "sorted_wrt (\<lambda>a b. f a \<ge> f b) xs \<Longrightarrow>
     sorted_wrt (\<lambda>a b. f a \<ge> f b) (insert_by (\<lambda>a b. f a > f b) x xs)"
  by (induction xs) (auto simp: set_insert_by)

lemma sorted_std_sort_desc:
  fixes f :: "'a \<Rightarrow> real"
  shows "sorted_wrt (\<lambda>a b. f a \<ge> f b) (std_sort (\<lambda>a b. f a > f b) xs)"
  by (induction xs) (auto simp: sorted_insert_by_desc)

section \<open>Lemmas on doubles\<close>

lemma bit_length_0: "bit_length 0 = 0"
  by (simp add: bit_length.simps)

lemma bit_length_pos: "0 < n \<Longrightarrow> bit_length n = Suc (bit_length (n div 2))"
  by (subst bit_length.simps) simp







lemma bit_length_1: "bit_length (Suc 0) = Suc 0"
  by (simp add: bit_length_pos bit_length_0)




section \<open>Lemmas on the number formats and the CSV text\<close>

lemma show_nat_small: "n < 10 \<Longrightarrow> show_nat n = [digit_char n]"
  by (simp add: show_nat.simps)

lemma show_nat_big: "10 \<le> n \<Longrightarrow> show_nat n = show_nat (n div 10) @ [digit_char (n mod 10)]"
  by (subst show_nat.simps) simp








lemma json_entries_eq: "json_entries out es = out @ spec_json_elements es"
proof (induction es arbitrary: out rule: spec_json_elements.induct)
  case 1
  then show ?case by simp
next
  case (2 e)
  then show ?case by (simp add: spec_json_object_def word_greater_zero_iff)
next
  case (3 e v va)
  then show ?case by (simp add: spec_json_object_def word_greater_zero_iff)
qed


lemma replicate_numeral_unfold: "replicate (numeral k) x = x # replicate (pred_numeral k) x"
  by (simp add: numeral_eq_Suc)

lemma double_examples:
  "round_to_double False (Suc 0) (Suc 0) = Finite False 4503599627370496 (- 52)"
  "round_to_double False 2 (Suc 0) = Finite False 4503599627370496 (- 51)"
  "round_to_double False 5 (Suc 0) = Finite False 5629499534213120 (- 50)"
  "round_to_double False 211106232532993 (Suc 0) = Finite False 6755399441055776 (- 5)"
  unfolding round_to_double_def Let_def
  by (simp_all add: round_div_def bit_length_0 bit_length_pos bit_length_1)

lemma show_fixed6_examples:
  "show_fixed6 (Finite False 4503599627370496 (- 52)) = ''1.000000''"
  "show_fixed6 (Finite False 4503599627370496 (- 51)) = ''2.000000''"
  "show_fixed6 (Finite False 5629499534213120 (- 50)) = ''5.000000''"
  "show_fixed6 (Finite False 0 (- 1074)) = ''0.000000''"
  unfolding show_fixed6.simps Let_def
  by (simp_all add: round_div_def show_nat_small show_nat_big digit_char_def
      replicate_numeral_unfold)

lemma show_u64_examples:
  "show_u64 0 = ''0''" "show_u64 1 = ''1''" "show_u64 4 = ''4''"
  unfolding show_u64_def by (simp_all add: show_nat_small digit_char_def)











section \<open>Lemmas on schedules of threads\<close>

lemma stop_split:
  "stop t key stop_time p =
     (case stop_local t key stop_time p of
        (None, p') \<Rightarrow> p'
      | (Some (k, elapsed), p') \<Rightarrow> stop_locked k elapsed p')"
  by (simp add: stop_def stop_local_def stop_locked_def Let_def split: option.splits)











section \<open>Start/stop accounting\<close>

text \<open>
  Claim C1. A \<open>start(name)\<close> followed on the same thread by \<open>stop(name)\<close> leaves the
  shared entry of the name with \<open>calls\<close> one higher and \<open>total_seconds\<close> higher by the
  time between the two clock readings; an absent entry counts as the default one. The same
  holds for a \<open>stop\<close> in any state where the thread's timer for the name is active, with
  the timer's start time. From a fresh registry, \<open>N\<close> cycles in sequence give
  \<open>calls = N\<close> (as a 64-bit counter, and as a number when \<open>N < 2^64\<close>) and
  \<open>total_seconds\<close> the sum of the elapsed times.
\<close>

theorem start_stop_accounting:
  "map_of (entries_map (stop t key t1 (start t key t0 p))) key =
      Some ((entry_at (entries_map p) key)
              \<lparr>name := key,
               calls := calls (entry_at (entries_map p) key) + 1,
               total_seconds := total_seconds (entry_at (entries_map p) key) + (t1 - t0)\<rparr>)
   \<and> (thread_timers q t key = Some it \<and> active it \<longrightarrow>
        map_of (entries_map (stop t key t1 q)) key =
          Some ((entry_at (entries_map q) key)
                  \<lparr>name := key,
                   calls := calls (entry_at (entries_map q) key) + 1,
                   total_seconds :=
                     total_seconds (entry_at (entries_map q) key) + (t1 - start_time it)\<rparr>))
   \<and> calls (entry_at (entries_map (cycles key cs Profiler_init)) key) = of_nat (length cs)
   \<and> (length cs < 2 ^ 64 \<longrightarrow>
        unat (calls (entry_at (entries_map (cycles key cs Profiler_init)) key)) = length cs)
   \<and> total_seconds (entry_at (entries_map (cycles key cs Profiler_init)) key)
        = (\<Sum>(t, t0, t1) \<leftarrow> cs. t1 - t0)"
proof -
  have init: "entry_at (entries_map Profiler_init) key = ProfileEntry_default"
    by (simp add: Profiler_init_def entry_at_def)
  have a: "map_of (entries_map (stop t key t1 (start t key t0 p))) key =
      Some ((entry_at (entries_map p) key)
              \<lparr>name := key,
               calls := calls (entry_at (entries_map p) key) + 1,
               total_seconds := total_seconds (entry_at (entries_map p) key) + (t1 - t0)\<rparr>)"
    by (simp add: stop_active [OF start_timer] update_conv' start_entries)
  have b: "thread_timers q t key = Some it \<and> active it \<longrightarrow>
        map_of (entries_map (stop t key t1 q)) key =
          Some ((entry_at (entries_map q) key)
                  \<lparr>name := key,
                   calls := calls (entry_at (entries_map q) key) + 1,
                   total_seconds :=
                     total_seconds (entry_at (entries_map q) key) + (t1 - start_time it)\<rparr>)"
    by (simp add: stop_active update_conv')
  have c: "calls (entry_at (entries_map (cycles key cs Profiler_init)) key) = of_nat (length cs)"
    by (simp add: cycles_calls init ProfileEntry_default_def)
  have u: "length cs < 2 ^ 64 \<longrightarrow>
        unat (calls (entry_at (entries_map (cycles key cs Profiler_init)) key)) = length cs"
    by (simp add: c unat_of_nat)
  have s: "total_seconds (entry_at (entries_map (cycles key cs Profiler_init)) key)
        = (\<Sum>(t, t0, t1) \<leftarrow> cs. t1 - t0)"
    by (simp add: cycles_seconds init ProfileEntry_default_def)
  show ?thesis using a b c u s by blast
qed

theorem start_stop_accounting_witness:
  "map_of (entries_map (stop 0 ''x'' 3.5 (start 0 ''x'' 1 Profiler_init))) ''x''
       = Some \<lparr>name = ''x'', calls = 1, total_seconds = 2.5, total_bytes = 0\<rparr>
   \<and> thread_timers (start 0 ''y'' 2 (start 0 ''x'' 1 Profiler_init)) 0 ''x''
       = Some \<lparr>start_time = 1, active = True\<rparr>
   \<and> active \<lparr>start_time = 1, active = True\<rparr>
   \<and> map_of (entries_map (stop 0 ''x'' 4 (start 0 ''y'' 2 (start 0 ''x'' 1 Profiler_init)))) ''x''
       = Some \<lparr>name = ''x'', calls = 1, total_seconds = 3, total_bytes = 0\<rparr>
   \<and> length [(0::nat, 1::real, 2::real), (0, 3, 5), (1, 5, 8)] < 2 ^ 64
   \<and> unat (calls (entry_at (entries_map
        (cycles ''x'' [(0, 1, 2), (0, 3, 5), (1, 5, 8)] Profiler_init)) ''x'')) = 3
   \<and> total_seconds (entry_at (entries_map
        (cycles ''x'' [(0, 1, 2), (0, 3, 5), (1, 5, 8)] Profiler_init)) ''x'') = 6"
proof -
  let ?q = "start 0 ''y'' 2 (start 0 ''x'' 1 Profiler_init)"
  have h: "thread_timers ?q 0 ''x'' = Some \<lparr>start_time = 1, active = True\<rparr>"
    by (simp add: start_def timer_at_def TimerState_default_def Profiler_init_def)
  have e: "entry_at (entries_map ?q) ''x'' = ProfileEntry_default"
    by (simp add: start_def Let_def entry_at_def Profiler_init_def)
  have e0: "entry_at (entries_map Profiler_init) ''x'' = ProfileEntry_default"
    by (simp add: entry_at_def Profiler_init_def)
  have l: "length [(0::nat, 1::real, 2::real), (0, 3, 5), (1, 5, 8)] < 2 ^ 64"
    by simp
  show ?thesis
    using h l start_stop_accounting [where t = 0 and key = "''x''" and ?t0.0 = 1 and ?t1.0 = "3.5"
        and p = Profiler_init and q = ?q and it = "\<lparr>start_time = 1, active = True\<rparr>"
        and cs = "[(0, 1, 2), (0, 3, 5), (1, 5, 8)]"]
      start_stop_accounting [where t = 0 and key = "''x''" and ?t1.0 = 4
        and q = ?q and it = "\<lparr>start_time = 1, active = True\<rparr>"]
    by (simp add: e e0 ProfileEntry_default_def)
qed

section \<open>Aggregation across threads\<close>



section \<open>Unpaired stop\<close>

text \<open>
  Claim C3. A \<open>stop(name)\<close> on a thread that has no active timer for that name, because
  the name was never started there or because its timer is already stopped, returns the
  profiler as it was: the registry and every thread's timers are unchanged, and no entry
  for the name appears.
\<close>

theorem stop_without_active_timer_is_noop:
  "(thread_timers p t key = None \<or> (\<exists>it. thread_timers p t key = Some it \<and> \<not> active it))
   \<Longrightarrow> stop t key stop_time p = p"
  by (auto simp: stop_def)

theorem stop_without_active_timer_is_noop_witness:
  "stop 0 ''x'' 5 Profiler_init = Profiler_init
   \<and> map_of (entries_map (stop 0 ''x'' 5 Profiler_init)) ''x'' = None
   \<and> stop 0 ''x'' 9 (stop 0 ''x'' 7 (start 0 ''x'' 1 Profiler_init))
       = stop 0 ''x'' 7 (start 0 ''x'' 1 Profiler_init)"
proof -
  have a: "stop 0 ''x'' 5 Profiler_init = Profiler_init"
    using stop_without_active_timer_is_noop [of Profiler_init 0 "''x''" 5]
    by (simp add: Profiler_init_def)
  let ?q = "stop 0 ''x'' 7 (start 0 ''x'' 1 Profiler_init)"
  have "\<exists>it. thread_timers ?q 0 ''x'' = Some it \<and> \<not> active it"
    by (simp add: Profiler_init_def stop_def start_def timer_at_def TimerState_default_def Let_def)
  then have b: "stop 0 ''x'' 9 ?q = ?q"
    using stop_without_active_timer_is_noop [of ?q 0 "''x''" 9] by blast
  show ?thesis using a b by (simp add: Profiler_init_def)
qed


section \<open>Snapshot\<close>

text \<open>
  Claim C4. \<open>entries()\<close> returns the stored entries in descending order of
  \<open>total_seconds\<close>: the returned list is ordered, it holds exactly the entries of the
  registry (as a multiset), and the profiler after the call is the profiler before it.
  Entries with totals 1.0, 5.0 and 3.0 come back in the order 5.0, 3.0, 1.0.
\<close>

theorem entries_sorted_snapshot:
  "sorted_wrt (\<lambda>a b. total_seconds a \<ge> total_seconds b) (fst (entries p))
   \<and> mset (fst (entries p)) = mset (map snd (entries_map p))
   \<and> snd (entries p) = p
   \<and> fst (entries (p\<lparr>entries_map :=
         [(''a'', \<lparr>name = ''a'', calls = 1, total_seconds = 1.0, total_bytes = 0\<rparr>),
          (''b'', \<lparr>name = ''b'', calls = 1, total_seconds = 5.0, total_bytes = 0\<rparr>),
          (''c'', \<lparr>name = ''c'', calls = 1, total_seconds = 3.0, total_bytes = 0\<rparr>)]\<rparr>)) =
         [\<lparr>name = ''b'', calls = 1, total_seconds = 5.0, total_bytes = 0\<rparr>,
          \<lparr>name = ''c'', calls = 1, total_seconds = 3.0, total_bytes = 0\<rparr>,
          \<lparr>name = ''a'', calls = 1, total_seconds = 1.0, total_bytes = 0\<rparr>]"
  by (simp add: entries_def Let_def sorted_std_sort_desc mset_std_sort)

section \<open>Byte accounting\<close>

text \<open>
  Claim C5. \<open>add_bytes(name, n)\<close> stores for the name the entry it had (the default
  entry when it had none) with \<open>total_bytes\<close> increased by \<open>n\<close> and with \<open>calls\<close> and
  \<open>total_seconds\<close> unchanged. The addition is that of \<open>uint64_t\<close>; it is the sum of the
  two numbers whenever that sum is below \<open>2^64\<close>. For a name with no entry yet, the
  result is an entry with \<open>calls = 0\<close> and \<open>total_bytes = n\<close>.
\<close>

theorem add_bytes_accounting:
  "map_of (entries_map (add_bytes key n p)) key =
      Some ((entry_at (entries_map p) key)
              \<lparr>name := key, total_bytes := total_bytes (entry_at (entries_map p) key) + n\<rparr>)
   \<and> calls (entry_at (entries_map (add_bytes key n p)) key) = calls (entry_at (entries_map p) key)
   \<and> total_seconds (entry_at (entries_map (add_bytes key n p)) key)
        = total_seconds (entry_at (entries_map p) key)
   \<and> total_bytes (entry_at (entries_map (add_bytes key n p)) key)
        = total_bytes (entry_at (entries_map p) key) + n
   \<and> (unat (total_bytes (entry_at (entries_map p) key)) + unat n < 2 ^ 64 \<longrightarrow>
        unat (total_bytes (entry_at (entries_map (add_bytes key n p)) key))
          = unat (total_bytes (entry_at (entries_map p) key)) + unat n)
   \<and> (map_of (entries_map p) key = None \<longrightarrow>
        map_of (entries_map (add_bytes key n p)) key =
          Some \<lparr>name = key, calls = 0, total_seconds = 0, total_bytes = n\<rparr>)"
proof -
  have e: "entry_at (entries_map (add_bytes key n p)) key =
      (entry_at (entries_map p) key)
              \<lparr>name := key, total_bytes := total_bytes (entry_at (entries_map p) key) + n\<rparr>"
    by (simp add: add_bytes_def Let_def entry_at_update)
  have m: "map_of (entries_map (add_bytes key n p)) key =
      Some ((entry_at (entries_map p) key)
              \<lparr>name := key, total_bytes := total_bytes (entry_at (entries_map p) key) + n\<rparr>)"
    by (simp add: add_bytes_def Let_def update_conv')
  have u: "unat (total_bytes (entry_at (entries_map p) key)) + unat n < 2 ^ 64 \<longrightarrow>
        unat (total_bytes (entry_at (entries_map (add_bytes key n p)) key))
          = unat (total_bytes (entry_at (entries_map p) key)) + unat n"
    by (simp add: e unat_word_ariths)
  have f: "map_of (entries_map p) key = None \<longrightarrow>
        map_of (entries_map (add_bytes key n p)) key =
          Some \<lparr>name = key, calls = 0, total_seconds = 0, total_bytes = n\<rparr>"
    by (simp add: m entry_at_def ProfileEntry_default_def)
  show ?thesis using m u f by (simp add: e)
qed

theorem add_bytes_accounting_witness:
  "map_of (entries_map Profiler_init) ''io'' = None
   \<and> map_of (entries_map (add_bytes ''io'' 4096 Profiler_init)) ''io''
       = Some \<lparr>name = ''io'', calls = 0, total_seconds = 0, total_bytes = 4096\<rparr>
   \<and> unat (total_bytes (entry_at (entries_map (add_bytes ''io'' 4096 Profiler_init)) ''io''))
        + unat (100 :: u64) < 2 ^ 64
   \<and> unat (total_bytes (entry_at (entries_map
        (add_bytes ''io'' 100 (add_bytes ''io'' 4096 Profiler_init))) ''io'')) = 4196"
proof -
  have h: "map_of (entries_map Profiler_init) ''io'' = None"
    by (simp add: Profiler_init_def)
  have a: "map_of (entries_map (add_bytes ''io'' 4096 Profiler_init)) ''io''
       = Some \<lparr>name = ''io'', calls = 0, total_seconds = 0, total_bytes = 4096\<rparr>"
    using h add_bytes_accounting [of "''io''" 4096 Profiler_init]
    by (simp add: entry_at_def ProfileEntry_default_def)
  then have b: "total_bytes (entry_at (entries_map (add_bytes ''io'' 4096 Profiler_init)) ''io'') = 4096"
    by (simp add: entry_at_def)
  have c: "unat (4096 :: u64) + unat (100 :: u64) < 2 ^ 64"
    by simp
  show ?thesis
    using h a c add_bytes_accounting [of "''io''" 100 "add_bytes ''io'' 4096 Profiler_init"]
    by (simp add: b)
qed

section \<open>JSON output\<close>

text \<open>
  Claim C6. The JSON branch writes, for every entry, an object with the keys \<open>name\<close>,
  \<open>calls\<close> and \<open>total_seconds\<close>, and with \<open>total_bytes\<close> exactly when that field
  is not zero. It writes the region name between double quotes as it is, with no escaping:
  for the one entry named \<open>a"b\<close> the file holds the line \<open>"name": "a"b",\<close> and the
  JSON recogniser rejects the text, while for the name \<open>a_b\<close> the same entry gives a
  text the recogniser accepts.
\<close>

theorem dump_json_name_not_escaped:
  \<open>json_entries out es = out @ spec_json_elements es
   \<and> file_content (dump_profile (\<lambda>f. True)
       [\<lparr>name = ''a"b'', calls = 1, total_seconds = round_to_double False 1 1, total_bytes = 0\<rparr>] ''out.json'')
     = Some ''[\<newline>  {\<newline>    "name": "a"b",\<newline>    "calls": 1,\<newline>    "total_seconds": 1.000000\<newline>  }\<newline>]\<newline>''
   \<and> \<not> json_valid ''[\<newline>  {\<newline>    "name": "a"b",\<newline>    "calls": 1,\<newline>    "total_seconds": 1.000000\<newline>  }\<newline>]\<newline>''
   \<and> file_content (dump_profile (\<lambda>f. True)
       [\<lparr>name = ''a_b'', calls = 1, total_seconds = round_to_double False 1 1, total_bytes = 0\<rparr>] ''out.json'')
     = Some ''[\<newline>  {\<newline>    "name": "a_b",\<newline>    "calls": 1,\<newline>    "total_seconds": 1.000000\<newline>  }\<newline>]\<newline>''
   \<and> json_valid ''[\<newline>  {\<newline>    "name": "a_b",\<newline>    "calls": 1,\<newline>    "total_seconds": 1.000000\<newline>  }\<newline>]\<newline>''\<close>
proof -
  have a: \<open>file_content (dump_profile (\<lambda>f. True)
       [\<lparr>name = ''a"b'', calls = 1, total_seconds = round_to_double False 1 1, total_bytes = 0\<rparr>] ''out.json'')
     = Some ''[\<newline>  {\<newline>    "name": "a"b",\<newline>    "calls": 1,\<newline>    "total_seconds": 1.000000\<newline>  }\<newline>]\<newline>''\<close>
    by (simp add: dump_profile_def double_examples show_fixed6_examples show_u64_examples)
  have b: \<open>\<not> json_valid ''[\<newline>  {\<newline>    "name": "a"b",\<newline>    "calls": 1,\<newline>    "total_seconds": 1.000000\<newline>  }\<newline>]\<newline>''\<close>
    by (simp add: json_valid_def skip_ws_def is_ws_def json_number_def json_digits_def
        is_digit_def is_hex_def Let_def)
  have c: \<open>file_content (dump_profile (\<lambda>f. True)
       [\<lparr>name = ''a_b'', calls = 1, total_seconds = round_to_double False 1 1, total_bytes = 0\<rparr>] ''out.json'')
     = Some ''[\<newline>  {\<newline>    "name": "a_b",\<newline>    "calls": 1,\<newline>    "total_seconds": 1.000000\<newline>  }\<newline>]\<newline>''\<close>
    by (simp add: dump_profile_def double_examples show_fixed6_examples show_u64_examples)
  have d: \<open>json_valid ''[\<newline>  {\<newline>    "name": "a_b",\<newline>    "calls": 1,\<newline>    "total_seconds": 1.000000\<newline>  }\<newline>]\<newline>''\<close>
    by (simp add: json_valid_def skip_ws_def is_ws_def json_number_def json_digits_def
        is_digit_def is_hex_def Let_def)
  show ?thesis using a b c d json_entries_eq by blast
qed

section \<open>Format dispatch and CSV output\<close>




section \<open>The disabled build\<close>

text \<open>
  Claim C8. Without \<open>GENIE_PROFILE\<close> every operation takes the arguments of the operation
  it replaces and changes nothing: \<open>start\<close>, \<open>stop\<close>, \<open>add_bytes\<close>, \<open>clear\<close> and the
  constructor and destructor of \<open>ScopedTimer\<close> return the state they were given,
  \<open>entries\<close> returns the empty sequence, and \<open>dump_profile\<close> writes no file and prints
  nothing.
\<close>

theorem stub_operations_are_noops:
  "stub_start t key now p = p
   \<and> stub_stop t key now p = p
   \<and> stub_add_bytes key bytes p = p
   \<and> stub_entries p = ([], p)
   \<and> stub_clear p = p
   \<and> stub_ScopedTimer_ctor t key now p = p
   \<and> stub_ScopedTimer_dtor t key now p = p
   \<and> stub_dump_profile can_open es filename = \<lparr>file_content = None, cerr = [], cout = []\<rparr>"
  by (simp add: stub_start_def stub_stop_def stub_add_bytes_def stub_entries_def stub_clear_def
      stub_ScopedTimer_ctor_def stub_ScopedTimer_dtor_def stub_dump_profile_def)

section \<open>Failures of the reporter\<close>

text \<open>
  Claim C9. \<open>dump_profile\<close> returns on every input. For an empty entry sequence it writes
  no file and prints a warning on \<open>std::cerr\<close>; for a path that cannot be opened it writes
  no file and prints an error message with the path on \<open>std::cerr\<close>. Whenever no file is
  written, something is printed on \<open>std::cerr\<close>.
\<close>

theorem dump_failures_are_diagnostics:
  "(es = [] \<longrightarrow>
      dump_profile can_open es filename =
        \<lparr>file_content = None, cerr = ''Warning: No profiling data collected\<newline>'', cout = []\<rparr>)
   \<and> (es \<noteq> [] \<and> \<not> can_open filename \<longrightarrow>
      dump_profile can_open es filename =
        \<lparr>file_content = None,
         cerr = ''Error: Could not open profile output file: '' @ filename @ ''\<newline>'',
         cout = []\<rparr>)
   \<and> (file_content (dump_profile can_open es filename) = None \<longrightarrow>
        cerr (dump_profile can_open es filename) \<noteq> [])"
  by (simp add: dump_profile_def Let_def)

theorem dump_failures_are_diagnostics_witness:
  "dump_profile (\<lambda>f. True) [] ''out.csv'' =
     \<lparr>file_content = None, cerr = ''Warning: No profiling data collected\<newline>'', cout = []\<rparr>
   \<and> [\<lparr>name = ''a'', calls = 1, total_seconds = round_to_double False 1 1, total_bytes = 0\<rparr>] \<noteq> []
   \<and> \<not> (\<lambda>f. f \<noteq> ''/no/such/dir/out.csv'') ''/no/such/dir/out.csv''
   \<and> dump_profile (\<lambda>f. f \<noteq> ''/no/such/dir/out.csv'')
        [\<lparr>name = ''a'', calls = 1, total_seconds = round_to_double False 1 1, total_bytes = 0\<rparr>] ''/no/such/dir/out.csv'' =
     \<lparr>file_content = None,
      cerr = ''Error: Could not open profile output file: /no/such/dir/out.csv\<newline>'',
      cout = []\<rparr>"
  using dump_failures_are_diagnostics [of "[]" "\<lambda>f. True" "''out.csv''"]
    dump_failures_are_diagnostics
      [of "[\<lparr>name = ''a'', calls = 1, total_seconds = round_to_double False 1 1, total_bytes = 0\<rparr>]"
          "\<lambda>f. f \<noteq> ''/no/such/dir/out.csv''" "''/no/such/dir/out.csv''"]
  by simp

section \<open>Clearing the registry\<close>

text \<open>
  Claim C10. \<open>clear()\<close> empties the registry, so that \<open>entries()\<close> returns the empty
  sequence, and leaves the timers of every thread as they were. A timer that was active
  before the clear is stopped afterwards as usual: the \<open>stop\<close> creates an entry for the
  name with \<open>calls = 1\<close> and the elapsed time since its start.
\<close>

theorem clear_resets_only_registry:
  "entries_map (clear p) = []
   \<and> fst (entries (clear p)) = []
   \<and> thread_timers (clear p) = thread_timers p
   \<and> (thread_timers p t key = Some it \<and> active it \<longrightarrow>
        map_of (entries_map (stop t key t1 (clear p))) key =
          Some \<lparr>name = key, calls = 1, total_seconds = t1 - start_time it, total_bytes = 0\<rparr>)"
proof -
  have "thread_timers p t key = Some it \<and> active it \<longrightarrow>
        map_of (entries_map (stop t key t1 (clear p))) key =
          Some \<lparr>name = key, calls = 1, total_seconds = t1 - start_time it, total_bytes = 0\<rparr>"
    by (simp add: stop_def clear_def Let_def update_conv' entry_at_def ProfileEntry_default_def)
  then show ?thesis by (simp add: clear_def entries_def)
qed

theorem clear_resets_only_registry_witness:
  "thread_timers (start 0 ''x'' 1 (stop 0 ''x'' 1 (start 0 ''x'' 0 Profiler_init))) 0 ''x''
       = Some \<lparr>start_time = 1, active = True\<rparr>
   \<and> active \<lparr>start_time = 1, active = True\<rparr>
   \<and> fst (entries (clear (start 0 ''x'' 1 (stop 0 ''x'' 1 (start 0 ''x'' 0 Profiler_init))))) = []
   \<and> map_of (entries_map (stop 0 ''x'' 4
        (clear (start 0 ''x'' 1 (stop 0 ''x'' 1 (start 0 ''x'' 0 Profiler_init)))))) ''x''
       = Some \<lparr>name = ''x'', calls = 1, total_seconds = 3, total_bytes = 0\<rparr>"
proof -
  let ?p = "start 0 ''x'' 1 (stop 0 ''x'' 1 (start 0 ''x'' 0 Profiler_init))"
  have h: "thread_timers ?p 0 ''x'' = Some \<lparr>start_time = 1, active = True\<rparr>"
    by (simp add: start_def stop_def timer_at_def TimerState_default_def Profiler_init_def Let_def)
  show ?thesis
    using h clear_resets_only_registry [of ?p 0 "''x''" "\<lparr>start_time = 1, active = True\<rparr>" 4]
    by simp
qed

end
